theory Spec2Isabelle
  imports Complex_Main "HOL-Library.Sublist"
begin

section \<open>Strings of the source\<close>

text \<open>
  A Python \<open>str\<close> is modelled as a \<open>string\<close> whose characters are code points below 256.
  \<open>str.strip()\<close> removes the white space of that range from both ends, \<open>str.lower()\<close>
  maps the upper-case letters of that range to lower case, \<open>str(n)\<close> writes a natural
  number in decimal, and \<open>sub in s\<close> is the substring test.
\<close>

definition is_space :: "char \<Rightarrow> bool" where
  "is_space c =
     (let k = (of_char c :: nat)
      in (9 \<le> k \<and> k \<le> 13) \<or> (28 \<le> k \<and> k \<le> 32) \<or> k = 133 \<or> k = 160)"

definition strip :: "string \<Rightarrow> string" where
  "strip s = rev (dropWhile is_space (rev (dropWhile is_space s)))"

definition lower_char :: "char \<Rightarrow> char" where
  "lower_char c =
     (let k = (of_char c :: nat)
      in if (65 \<le> k \<and> k \<le> 90) \<or> (192 \<le> k \<and> k \<le> 222 \<and> k \<noteq> 215)
         then char_of (k + 32) else c)"

definition lower :: "string \<Rightarrow> string" where
  "lower s = map lower_char s"

definition digit_char :: "nat \<Rightarrow> char" where
  "digit_char d = char_of (48 + d)"

function str :: "nat \<Rightarrow> string" where
  "str n = (if n < 10 then [digit_char n] else str (n div 10) @ [digit_char (n mod 10)])"
  by pat_completeness auto
termination
  by (relation "measure id") auto

declare str.simps [simp del]

fun contains :: "string \<Rightarrow> string \<Rightarrow> bool" where
  "contains sub [] = (sub = [])"
| "contains sub (c # cs) = (prefix sub (c # cs) \<or> contains sub cs)"

section \<open>Configuration\<close>

definition MIN_WORD_LEN :: nat where
  "MIN_WORD_LEN = 5"

definition POINTS_BY_LEN :: "(nat \<times> int) list" where
  "POINTS_BY_LEN = [(5, 3), (6, 5), (7, 8), (8, 13)]"

definition PAIRINGS :: "(string \<times> string) list" where
  "PAIRINGS = [(''FESTIVAL'', ''PASSPORT''), (''PLAYTIME'', ''CAMPFIRE'')]"

definition tier_for_len :: "nat \<Rightarrow> string option" where
  "tier_for_len n = (if n \<in> {5, 6, 7, 8} then Some (str n) else None)"

text \<open>\<open>POINTS_BY_LEN.get(n, 0)\<close>\<close>

definition points_by_len_get :: "nat \<Rightarrow> int" where
  "points_by_len_get n = (case map_of POINTS_BY_LEN n of None \<Rightarrow> 0 | Some p \<Rightarrow> p)"

section \<open>Game state\<close>

text \<open>
  The two team dictionaries are objects of their own: \<open>state\<close> holds references to them, a
  shallow copy of \<open>state\<close> shares them and \<open>copy.deepcopy\<close> duplicates them. They live in
  a store indexed by addresses. Every other field holds an immutable value or is rebound as
  a whole (\<open>last_result\<close>), so it is kept by value.

  A result dictionary always has the keys \<open>id\<close>, \<open>word\<close>, \<open>valid\<close>, \<open>points\<close> and
  \<open>reason\<close>; the keys \<open>len\<close> and \<open>tier\<close> are absent (\<open>None\<close>) in the results written by
  the timers, and \<open>tier\<close> may be present with the value \<open>None\<close> (\<open>Some None\<close>).

  \<open>used_words\<close> is a Python set. It is kept as the list of its elements in iteration
  order, so that \<open>list(state["used_words"])\<close> is that list; membership and insertion go
  through \<open>set\<close>.
\<close>

type_synonym addr = nat

record team =
  name :: string
  score :: int

record result =
  res_id :: real
  res_word :: string
  res_valid :: bool
  res_len :: "nat option"
  res_tier :: "string option option"
  res_points :: int
  res_reason :: string

record session =
  pair_index :: int
  teamA :: addr
  teamB :: addr
  used_words :: "string list"
  current_team :: string
  phase :: string
  last_result :: "result option"
  last_trigger_at :: real
  winning_team :: "string option"
  bonus_submitted :: bool
  round_id :: int

text \<open>
  A background task started by \<open>socketio.start_background_task\<close>, at one of its resting
  points: before its first statement, or asleep with the \<open>my_round_id\<close> it captured.
\<close>

datatype task =
    Countdown_begin
  | Countdown_sleep3 int
  | Countdown_sleep30 int
  | Bonus_begin
  | Bonus_sleep3 int
  | Bonus_sleep60 int
  | Watchdog_begin
  | Watchdog_sleep11 int
  | Game_over_sleep12
  | Clear_result_sleep5

text \<open>What \<open>socketio.emit\<close> hands to the transport; a \<open>game_state\<close> payload is serialised
  when it is emitted, so it carries the team dictionaries by value.\<close>

datatype message =
    Game_state session team team
  | Admin_secrets string string
  | Snapshot

record world =
  state :: session
  heap :: "addr \<Rightarrow> team"
  last_emitted_state :: "session option"
  emitted :: "message list"
  tasks :: "task list"

definition score_of :: "world \<Rightarrow> addr \<Rightarrow> int" where
  "score_of w a = score (heap w a)"

definition scoreA :: "world \<Rightarrow> int" where
  "scoreA w = score_of w (teamA (state w))"

definition scoreB :: "world \<Rightarrow> int" where
  "scoreB w = score_of w (teamB (state w))"

definition set_phase :: "string \<Rightarrow> world \<Rightarrow> world" where
  "set_phase p w = w\<lparr>state := (state w)\<lparr>phase := p\<rparr>\<rparr>"

definition set_score :: "addr \<Rightarrow> int \<Rightarrow> world \<Rightarrow> world" where
  "set_score a v w = w\<lparr>heap := (heap w)(a := (heap w a)\<lparr>score := v\<rparr>)\<rparr>"

definition set_name :: "addr \<Rightarrow> string \<Rightarrow> world \<Rightarrow> world" where
  "set_name a v w = w\<lparr>heap := (heap w)(a := (heap w a)\<lparr>name := v\<rparr>)\<rparr>"

definition start_background_task :: "task \<Rightarrow> world \<Rightarrow> world" where
  "start_background_task t w = w\<lparr>tasks := tasks w @ [t]\<rparr>"

definition socketio_emit :: "message \<Rightarrow> world \<Rightarrow> world" where
  "socketio_emit m w = w\<lparr>emitted := emitted w @ [m]\<rparr>"

section \<open>Broadcast\<close>

text \<open>
  \<open>==\<close> on two snapshot dictionaries: key by key, the team dictionaries compared by their
  contents in the store.
\<close>

definition snapshot_eq :: "(addr \<Rightarrow> team) \<Rightarrow> session \<Rightarrow> session \<Rightarrow> bool" where
  "snapshot_eq h x y \<longleftrightarrow>
     pair_index x = pair_index y \<and>
     h (teamA x) = h (teamA y) \<and>
     h (teamB x) = h (teamB y) \<and>
     used_words x = used_words y \<and>
     current_team x = current_team y \<and>
     phase x = phase y \<and>
     last_result x = last_result y \<and>
     last_trigger_at x = last_trigger_at y \<and>
     winning_team x = winning_team y \<and>
     bonus_submitted x = bonus_submitted y \<and>
     round_id x = round_id y"

text \<open>
  An address that no live reference holds: the references of \<open>state\<close> (shared by
  \<open>safe_state\<close>) and of the snapshot still bound to \<open>_last_emitted_state\<close>.
\<close>

definition fresh :: "world \<Rightarrow> addr" where
  "fresh w =
     Suc (max (max (teamA (state w)) (teamB (state w)))
              (case last_emitted_state w of None \<Rightarrow> 0 | Some l \<Rightarrow> max (teamA l) (teamB l)))"

text \<open>
  \<open>copy.deepcopy(safe_state)\<close>: the team dictionaries are duplicated at fresh addresses
  (one duplicate for both keys if both refer to one object, as the memo of \<open>deepcopy\<close>
  does); the result is the copy and the store that holds it.
\<close>

definition deepcopy :: "session \<Rightarrow> world \<Rightarrow> session \<times> (addr \<Rightarrow> team)" where
  "deepcopy x w =
     (let a = fresh w;
          b = (if teamB x = teamA x then a else Suc a)
      in (x\<lparr>teamA := a, teamB := b\<rparr>,
          (heap w)(a := heap w (teamA x), b := heap w (teamB x))))"

definition emit_state :: "bool \<Rightarrow> world \<Rightarrow> world" where
  "emit_state force w =
     (let safe_state = state w
      in if \<not> force \<and> last_emitted_state w \<noteq> None \<and>
            snapshot_eq (heap w) (the (last_emitted_state w)) safe_state
         then w
         else
           (let (c, h) = deepcopy safe_state w;
                w1 = w\<lparr>last_emitted_state := Some c, heap := h\<rparr>;
                w2 = socketio_emit
                       (Game_state safe_state (heap w (teamA safe_state)) (heap w (teamB safe_state))) w1;
                curr = PAIRINGS ! (nat (pair_index (state w2) mod int (length PAIRINGS)))
            in socketio_emit (Admin_secrets (fst curr) (snd curr)) w2))"

text \<open>True when the call of \<open>emit_state\<close> hands a \<open>game_state\<close> message to the transport.\<close>

definition pushes :: "bool \<Rightarrow> world \<Rightarrow> bool" where
  "pushes force w \<longleftrightarrow> emitted (emit_state force w) \<noteq> emitted w"

section \<open>Request handlers\<close>

text \<open>
  Each handler is one atomic step on the world: the statements under the lock, then the
  call of \<open>emit_state\<close>. \<open>time.time()\<close> is the argument \<open>now\<close>, the dictionary loaded
  from \<open>data/words.txt\<close> is the argument \<open>words\<close>, and the JSON body of a request is given
  by the values of the keys the handler reads (\<open>None\<close> for an absent key).
\<close>

datatype ok_reply = Ok_true

record submit_reply =
  valid :: bool
  points :: int
  reason :: string
  status :: nat

definition start_game :: "string option \<Rightarrow> string option \<Rightarrow> world \<Rightarrow> ok_reply \<times> world" where
  "start_game data_teamA data_teamB w =
     (let w1 = w\<lparr>state := (state w)\<lparr>pair_index := (pair_index (state w) + 1) mod int (length PAIRINGS)\<rparr>\<rparr>;
          w2 = (case data_teamA of None \<Rightarrow> w1
                | Some n \<Rightarrow> if n \<noteq> [] then set_name (teamA (state w1)) n w1 else w1);
          w3 = (case data_teamB of None \<Rightarrow> w2
                | Some n \<Rightarrow> if n \<noteq> [] then set_name (teamB (state w2)) n w2 else w2);
          w4 = set_score (teamA (state w3)) 0 w3;
          w5 = set_score (teamB (state w4)) 0 w4;
          w6 = w5\<lparr>state := (state w5)
                 \<lparr>used_words := [],
                  current_team := ''A'',
                  phase := ''intro'',
                  last_result := None,
                  winning_team := None,
                  bonus_submitted := False,
                  last_trigger_at := 0,
                  round_id := round_id (state w5) + 1\<rparr>\<rparr>
      in (Ok_true, emit_state True w6))"

definition init_bonus :: "world \<Rightarrow> ok_reply \<times> world" where
  "init_bonus w =
     (let scoreA = score (heap w (teamA (state w)));
          scoreB = score (heap w (teamB (state w)));
          w1 = (if scoreA \<ge> scoreB
                then w\<lparr>state := (state w)\<lparr>winning_team := Some ''A'', current_team := ''A''\<rparr>\<rparr>
                else w\<lparr>state := (state w)\<lparr>winning_team := Some ''B'', current_team := ''B''\<rparr>\<rparr>);
          w2 = w1\<lparr>state := (state w1)
                 \<lparr>phase := ''bonus_intro'', last_result := None, bonus_submitted := False\<rparr>\<rparr>
      in (Ok_true, emit_state False w2))"

definition reset_game :: "world \<Rightarrow> ok_reply \<times> world" where
  "reset_game w =
     (let w1 = set_phase ''intro'' w;
          w2 = set_score (teamA (state w1)) 0 w1;
          w3 = set_score (teamB (state w2)) 0 w2;
          w4 = w3\<lparr>state := (state w3)
                 \<lparr>winning_team := None, last_result := None, bonus_submitted := False\<rparr>\<rparr>
      in (Ok_true, emit_state False w4))"

text \<open>\<open>if team == "A": state["teamA"]["score"] += pts else: state["teamB"]["score"] += pts\<close>\<close>

definition add_points :: "string \<Rightarrow> int \<Rightarrow> world \<Rightarrow> world" where
  "add_points team pts w =
     (if team = ''A''
      then set_score (teamA (state w)) (score (heap w (teamA (state w))) + pts) w
      else set_score (teamB (state w)) (score (heap w (teamB (state w))) + pts) w)"

text \<open>\<open>state["used_words"].add(word)\<close>\<close>

definition used_words_add :: "string \<Rightarrow> world \<Rightarrow> world" where
  "used_words_add word w =
     (if word \<in> set (used_words (state w)) then w
      else w\<lparr>state := (state w)\<lparr>used_words := used_words (state w) @ [word]\<rparr>\<rparr>)"

definition bonus_points :: "nat \<Rightarrow> int" where
  "bonus_points n =
     (if n = 5 then 7 else if n = 6 then 9 else if n = 7 then 13 else if n \<ge> 8 then 20 else 0)"

text \<open>\<open>(data.get("word") or "").strip().lower()\<close>\<close>

definition request_word :: "string option \<Rightarrow> string" where
  "request_word data_word = lower (strip (case data_word of None \<Rightarrow> [] | Some x \<Rightarrow> x))"

definition submit :: "string set \<Rightarrow> string option \<Rightarrow> real \<Rightarrow> world \<Rightarrow> submit_reply \<times> world" where
  "submit words data_word now w =
     (let word = request_word data_word;
          n = length word;
          team = current_team (state w);
          tier = tier_for_len n
      in if phase (state w) \<in> set [''bonus_active'', ''bonus_scanning'', ''bonus_scan_failed'']
         then
           if bonus_submitted (state w)
           then (\<lparr>valid = False, points = 0, reason = ''already_submitted'', status = 400\<rparr>, w)
           else
             (let (valid, reason, pts, w1) =
                    (if n < 5 then (False, ''too_short'', 0, w)
                     else if word \<notin> words then (False, ''not_in_dictionary'', 0, w)
                     else (True, ''BONUS_CLEARED'', bonus_points n, add_points team (bonus_points n) w));
                  w2 = w1\<lparr>state := (state w1)
                         \<lparr>last_result := Some
                            \<lparr>res_id = now, res_word = word, res_valid = valid, res_len = Some n,
                             res_tier = Some (Some (str n)), res_points = pts, res_reason = reason\<rparr>,
                          bonus_submitted := True,
                          phase := ''bonus_intro''\<rparr>\<rparr>;
                  w3 = start_background_task Game_over_sleep12 w2
              in (\<lparr>valid = valid, points = pts, reason = reason, status = 200\<rparr>, emit_state False w3))
         else
           (let (valid, reason, pts, w1) =
                  (if n < MIN_WORD_LEN then (False, ''too_short'', 0, w)
                   else if word \<in> set (used_words (state w)) then (False, ''duplicate'', 0, w)
                   else if word \<notin> words then (False, ''not_in_dictionary'', 0, w)
                   else (True, ''ok'', points_by_len_get n,
                         add_points team (points_by_len_get n) (used_words_add word w)));
                w2 = w1\<lparr>state := (state w1)
                       \<lparr>last_result := Some
                          \<lparr>res_id = now, res_word = word, res_valid = valid, res_len = Some n,
                           res_tier = Some tier, res_points = pts, res_reason = reason\<rparr>,
                        phase := ''idle'',
                        current_team := (if team = ''A'' then ''B'' else ''A'')\<rparr>\<rparr>;
                w3 = start_background_task Clear_result_sleep5 w2
            in (\<lparr>valid = valid, points = pts, reason = reason, status = 200\<rparr>, emit_state False w3)))"

section \<open>Realtime events\<close>

definition on_trigger :: "real \<Rightarrow> world \<Rightarrow> world" where
  "on_trigger now w =
     (if now - last_trigger_at (state w) < 2 then w
      else
        (let w1 = w\<lparr>state := (state w)\<lparr>last_trigger_at := now\<rparr>\<rparr>;
             w2 =
               (if phase (state w1) = ''intro'' then set_phase ''idle'' w1
                else if phase (state w1) = ''idle'' then
                  start_background_task Countdown_begin
                    (w1\<lparr>state := (state w1)
                         \<lparr>phase := ''countdown'', last_result := None,
                          round_id := round_id (state w1) + 1\<rparr>\<rparr>)
                else if phase (state w1) = ''bonus_intro'' then
                  start_background_task Bonus_begin
                    (w1\<lparr>state := (state w1)
                         \<lparr>phase := ''bonus_countdown'', bonus_submitted := False,
                          round_id := round_id (state w1) + 1\<rparr>\<rparr>)
                else if phase (state w1) \<in> set [''active'', ''bonus_active''] then
                  (let new_phase =
                         (if phase (state w1) = ''bonus_active'' then ''bonus_scanning'' else ''scanning'')
                   in start_background_task Watchdog_begin
                        (socketio_emit Snapshot (set_phase new_phase w1)))
                else w1)
         in emit_state False w2))"

definition on_trigger_snapshot :: "world \<Rightarrow> world" where
  "on_trigger_snapshot w =
     (let w1 =
            (if phase (state w) \<in> set [''active'', ''countdown''] then
               start_background_task Watchdog_begin
                 (socketio_emit Snapshot (set_phase ''scanning'' w))
             else if phase (state w) \<in> set [''bonus_active'', ''bonus_countdown''] then
               start_background_task Watchdog_begin
                 (socketio_emit Snapshot (set_phase ''bonus_scanning'' w))
             else w)
      in emit_state False w1)"

definition on_scan_timeout :: "world \<Rightarrow> world" where
  "on_scan_timeout w =
     (let w1 =
            (if contains ''bonus'' (phase (state w))
             then set_phase ''bonus_scan_failed'' w
             else set_phase ''scan_failed'' w)
      in emit_state False w1)"

definition on_scan_complete :: "world \<Rightarrow> world" where
  "on_scan_complete w = w"

definition on_connect :: "world \<Rightarrow> world" where
  "on_connect w = emit_state True w"

section \<open>Timers\<close>

text \<open>
  A background task runs from one \<open>time.sleep\<close> to the next as one atomic step:
  \<open>run_task\<close> executes the statements that follow the resting point of the task and
  returns the resting point that comes next, or \<open>None\<close> when the task has returned.
  How long a task sleeps is left open: the steps of the tasks interleave with the
  handlers in any order.
\<close>

definition flip_team :: "string \<Rightarrow> string" where
  "flip_team t = (if t = ''A'' then ''B'' else ''A'')"

definition timer_result :: "real \<Rightarrow> string \<Rightarrow> result" where
  "timer_result now r =
     \<lparr>res_id = now, res_word = [], res_valid = False, res_len = None, res_tier = None,
      res_points = 0, res_reason = r\<rparr>"

fun run_task :: "task \<Rightarrow> real \<Rightarrow> world \<Rightarrow> task option \<times> world" where
  "run_task Countdown_begin now w = (Some (Countdown_sleep3 (round_id (state w))), w)"
| "run_task (Countdown_sleep3 my_round_id) now w =
     (let w1 = (if phase (state w) = ''countdown'' \<and> round_id (state w) = my_round_id
                then set_phase ''active'' w else w)
      in (Some (Countdown_sleep30 my_round_id), emit_state False w1))"
| "run_task (Countdown_sleep30 my_round_id) now w =
     (let w1 = (if phase (state w) = ''active'' \<and> round_id (state w) = my_round_id
                then start_background_task Clear_result_sleep5
                       (w\<lparr>state := (state w)
                            \<lparr>phase := ''idle'',
                             last_result := Some (timer_result now ''TIMEOUT''),
                             current_team := flip_team (current_team (state w))\<rparr>\<rparr>)
                else w)
      in (None, emit_state False w1))"
| "run_task Bonus_begin now w = (Some (Bonus_sleep3 (round_id (state w))), w)"
| "run_task (Bonus_sleep3 my_round_id) now w =
     (let w1 = (if phase (state w) = ''bonus_countdown'' \<and> round_id (state w) = my_round_id
                then set_phase ''bonus_active'' w else w)
      in (Some (Bonus_sleep60 my_round_id), emit_state False w1))"
| "run_task (Bonus_sleep60 my_round_id) now w =
     (let w1 = (if phase (state w) = ''bonus_active'' \<and> round_id (state w) = my_round_id
                   \<and> \<not> bonus_submitted (state w)
                then start_background_task Game_over_sleep12
                       (w\<lparr>state := (state w)
                            \<lparr>last_result := Some (timer_result now ''TIME_EXPIRED''),
                             bonus_submitted := True,
                             phase := ''bonus_intro''\<rparr>\<rparr>)
                else w)
      in (None, emit_state False w1))"
| "run_task Watchdog_begin now w = (Some (Watchdog_sleep11 (round_id (state w))), w)"
| "run_task (Watchdog_sleep11 my_round_id) now w =
     (if round_id (state w) \<noteq> my_round_id then (None, w)
      else if phase (state w) = ''scanning'' then (None, emit_state False (set_phase ''scan_failed'' w))
      else if phase (state w) = ''bonus_scanning''
      then (None, emit_state False (set_phase ''bonus_scan_failed'' w))
      else (None, w))"
| "run_task Game_over_sleep12 now w = (None, emit_state False (set_phase ''game_over'' w))"
| "run_task Clear_result_sleep5 now w =
     (let w1 = (if phase (state w) = ''idle''
                then w\<lparr>state := (state w)\<lparr>last_result := None\<rparr>\<rparr> else w)
      in (None, emit_state False w1))"

text \<open>
  The \<open>i\<close>-th pending task takes its next step; a task that has returned leaves the pool,
  the tasks it started are at the end of the pool.
\<close>

definition fire :: "nat \<Rightarrow> real \<Rightarrow> world \<Rightarrow> world" where
  "fire i now w =
     (if i < length (tasks w) then
        (let (next, w1) = run_task (tasks w ! i) now w
         in case next of
              Some t \<Rightarrow> w1\<lparr>tasks := (tasks w1)[i := t]\<rparr>
            | None \<Rightarrow> w1\<lparr>tasks := take i (tasks w1) @ drop (Suc i) (tasks w1)\<rparr>)
      else w)"

section \<open>Runs of the system\<close>

datatype event =
    Start_game "string option" "string option"
  | Init_bonus
  | Reset_game
  | Submit "string option" real
  | Game_trigger real
  | Trigger_snapshot
  | Scan_timeout
  | Scan_complete
  | Connect
  | Fire nat real

fun step :: "string set \<Rightarrow> event \<Rightarrow> world \<Rightarrow> world" where
  "step words (Start_game a b) w = snd (start_game a b w)"
| "step words Init_bonus w = snd (init_bonus w)"
| "step words Reset_game w = snd (reset_game w)"
| "step words (Submit d now) w = snd (submit words d now w)"
| "step words (Game_trigger now) w = on_trigger now w"
| "step words Trigger_snapshot w = on_trigger_snapshot w"
| "step words Scan_timeout w = on_scan_timeout w"
| "step words Scan_complete w = on_scan_complete w"
| "step words Connect w = on_connect w"
| "step words (Fire i now) w = fire i now w"

fun run :: "string set \<Rightarrow> event list \<Rightarrow> world \<Rightarrow> world" where
  "run words [] w = w"
| "run words (e # es) w = run words es (step words e w)"

text \<open>The world when the process has started: the module-level \<open>state\<close>, its two team
  dictionaries at the addresses 0 and 1, nothing published and no task running.\<close>

definition initial_state :: session where
  "initial_state =
     \<lparr>pair_index = 0, teamA = 0, teamB = 1, used_words = [], current_team = ''A'',
      phase = ''intro'', last_result = None, last_trigger_at = 0, winning_team = None,
      bonus_submitted = False, round_id = 0\<rparr>"

definition initial_world :: world where
  "initial_world =
     \<lparr>state = initial_state,
      heap = (\<lambda>_. \<lparr>name = [], score = 0\<rparr>)
               (0 := \<lparr>name = ''Team A'', score = 0\<rparr>, 1 := \<lparr>name = ''Team B'', score = 0\<rparr>),
      last_emitted_state = None, emitted = [], tasks = []\<rparr>"

section \<open>Notions used in the statements\<close>

text \<open>The events that set the scores back to zero.\<close>

fun zeroes_scores :: "event \<Rightarrow> bool" where
  "zeroes_scores (Start_game a b) = True"
| "zeroes_scores Reset_game = True"
| "zeroes_scores e = False"

text \<open>The test under which \<open>emit_state\<close> returns without publishing.\<close>

definition skips :: "bool \<Rightarrow> world \<Rightarrow> bool" where
  "skips force w \<longleftrightarrow>
     \<not> force \<and> last_emitted_state w \<noteq> None \<and>
     snapshot_eq (heap w) (the (last_emitted_state w)) (state w)"

text \<open>
  The snapshot bound to \<open>_last_emitted_state\<close> shares no team dictionary with \<open>state\<close>:
  it is a copy by value, not a live reference.
\<close>

definition apart :: "session option \<Rightarrow> addr \<Rightarrow> addr \<Rightarrow> bool" where
  "apart prev a b \<longleftrightarrow>
     (case prev of
        None \<Rightarrow> True
      | Some l \<Rightarrow> teamA l \<noteq> a \<and> teamA l \<noteq> b \<and> teamB l \<noteq> a \<and> teamB l \<noteq> b)"

definition separated :: "world \<Rightarrow> bool" where
  "separated w \<longleftrightarrow> apart (last_emitted_state w) (teamA (state w)) (teamB (state w))"

text \<open>
  Once \<open>bonus_submitted\<close> is set, the phase is none of those from which the bonus branch
  of \<open>submit\<close> can be entered again without a new trigger.
\<close>

definition bonus_round_closed :: "world \<Rightarrow> bool" where
  "bonus_round_closed w \<longleftrightarrow>
     (\<not> bonus_submitted (state w) \<or>
      phase (state w) \<notin> set [''bonus_countdown'', ''bonus_active'', ''bonus_scanning'',
                                  ''bonus_scan_failed''])"

text \<open>A dictionary and some runs from the initial world, used as concrete inputs.\<close>

definition example_words :: "string set" where
  "example_words = {''apple'', ''bread''}"

definition bonus_active_world :: world where
  "bonus_active_world =
     run example_words [Init_bonus, Game_trigger 10, Fire 0 10, Fire 0 13] initial_world"

definition bonus_submitted_world :: world where
  "bonus_submitted_world = run example_words [Submit (Some ''apple'') 20] bonus_active_world"

definition stale_countdown_world :: world where
  "stale_countdown_world =
     run example_words [Game_trigger 10, Game_trigger 20, Fire 0 20, Start_game None None]
       initial_world"

definition result_shown_world :: world where
  "result_shown_world =
     run example_words [Submit None 1, Game_trigger 10, Submit None 11] initial_world"

section \<open>Facts about the broadcast\<close>

lemma fresh_gt: "teamA (state w) < fresh w" "teamB (state w) < fresh w"
  by (simp_all add: fresh_def)

lemma fresh_neq:
  "fresh w \<noteq> teamA (state w)" "fresh w \<noteq> teamB (state w)"
  "Suc (fresh w) \<noteq> teamA (state w)" "Suc (fresh w) \<noteq> teamB (state w)"
  "teamA (state w) \<noteq> fresh w" "teamB (state w) \<noteq> fresh w"
  "teamA (state w) \<noteq> Suc (fresh w)" "teamB (state w) \<noteq> Suc (fresh w)"
  using fresh_gt [of w] by simp_all

lemma emit_state_state [simp]: "state (emit_state f w) = state w"
  by (simp add: emit_state_def deepcopy_def socketio_emit_def Let_def split: prod.splits)

lemma emit_state_tasks [simp]: "tasks (emit_state f w) = tasks w"
  by (simp add: emit_state_def deepcopy_def socketio_emit_def Let_def split: prod.splits)

lemma emit_state_heap: "a < fresh w \<Longrightarrow> heap (emit_state f w) a = heap w a"
  by (auto simp add: emit_state_def deepcopy_def socketio_emit_def Let_def split: prod.splits)

lemma emit_state_heap_team [simp]:
  "a = teamA (state w) \<or> a = teamB (state w) \<Longrightarrow> heap (emit_state f w) a = heap w a"
  using emit_state_heap fresh_gt by blast

lemma emit_state_skip: "skips force w \<Longrightarrow> emit_state force w = w"
  by (simp add: emit_state_def skips_def)

lemma emit_state_push:
  "\<not> skips force w \<Longrightarrow>
   emit_state force w =
     w\<lparr>last_emitted_state := Some (fst (deepcopy (state w) w)),
       heap := snd (deepcopy (state w) w),
       emitted := emitted w @
         [Game_state (state w) (heap w (teamA (state w))) (heap w (teamB (state w))),
          Admin_secrets (fst (PAIRINGS ! nat (pair_index (state w) mod 2)))
                        (snd (PAIRINGS ! nat (pair_index (state w) mod 2)))]\<rparr>"
  unfolding skips_def
  by (auto simp add: emit_state_def socketio_emit_def Let_def PAIRINGS_def split: prod.splits)

lemma deepcopy_in_sync:
  "snapshot_eq (snd (deepcopy (state w) w)) (fst (deepcopy (state w) w)) (state w)"
  by (simp add: snapshot_eq_def deepcopy_def Let_def fresh_neq)

lemma deepcopy_separated:
  "teamA (fst (deepcopy (state w) w)) \<noteq> teamA (state w)"
  "teamA (fst (deepcopy (state w) w)) \<noteq> teamB (state w)"
  "teamB (fst (deepcopy (state w) w)) \<noteq> teamA (state w)"
  "teamB (fst (deepcopy (state w) w)) \<noteq> teamB (state w)"
  by (simp_all add: deepcopy_def Let_def fresh_neq)

lemma emit_state_cases:
  obtains (skip) "skips force w" "emit_state force w = w"
  | (push) "\<not> skips force w"
      "last_emitted_state (emit_state force w) = Some (fst (deepcopy (state w) w))"
      "heap (emit_state force w) = snd (deepcopy (state w) w)"
      "emitted (emit_state force w) =
         emitted w @
           [Game_state (state w) (heap w (teamA (state w))) (heap w (teamB (state w))),
            Admin_secrets (fst (PAIRINGS ! nat (pair_index (state w) mod 2)))
                          (snd (PAIRINGS ! nat (pair_index (state w) mod 2)))]"
  using emit_state_skip [of force w] emit_state_push [of force w]
  by (cases "skips force w") simp_all

lemma emit_state_in_sync: "skips False (emit_state f w)"
proof (cases f w rule: emit_state_cases)
  case skip
  then show ?thesis by (simp add: skips_def)
next
  case push
  then show ?thesis using deepcopy_in_sync [of w] by (simp add: skips_def)
qed

lemma emit_state_idem: "emit_state False (emit_state f w) = emit_state f w"
  using emit_state_in_sync by (rule emit_state_skip)

lemma pushes_iff: "pushes force w \<longleftrightarrow> \<not> skips force w"
  unfolding pushes_def
  by (cases force w rule: emit_state_cases) simp_all

lemma emit_state_apart [simp]:
  assumes "apart (last_emitted_state w) a b" and "a = teamA (state w)" and "b = teamB (state w)"
  shows "apart (last_emitted_state (emit_state f w)) a b"
proof (cases f w rule: emit_state_cases)
  case skip
  then show ?thesis using assms by simp
next
  case push
  then show ?thesis
    using deepcopy_separated [of w] assms by (simp add: apart_def)
qed

subsection \<open>The published copy stays apart from the session\<close>

lemma run_task_separated: "separated w \<Longrightarrow> separated (snd (run_task t now w))"
  unfolding separated_def
  by (cases t) (simp_all add: Let_def start_background_task_def set_phase_def)

lemma fire_separated: "separated w \<Longrightarrow> separated (fire i now w)"
proof (cases "i < length (tasks w)")
  case True
  assume s: "separated w"
  obtain nx w1 where r: "run_task (tasks w ! i) now w = (nx, w1)"
    by (cases "run_task (tasks w ! i) now w")
  have "separated w1" using run_task_separated [OF s, of "tasks w ! i" now] r by simp
  then show ?thesis using True r
    by (cases nx) (simp_all add: fire_def separated_def)
next
  case False
  then show "separated w \<Longrightarrow> separated (fire i now w)" by (simp add: fire_def)
qed

lemma step_separated: "separated w \<Longrightarrow> separated (step words e w)"
proof (cases e)
  case (Submit d now)
  assume "separated w"
  then show ?thesis using Submit unfolding separated_def
    by (simp add: submit_def Let_def start_background_task_def add_points_def set_score_def
        used_words_add_def)
next
  case (Game_trigger now)
  assume "separated w"
  then show ?thesis using Game_trigger unfolding separated_def
    by (simp add: on_trigger_def Let_def start_background_task_def set_phase_def
        socketio_emit_def)
next
  case (Fire i now)
  assume "separated w"
  then show ?thesis using Fire by (simp add: fire_separated)
next
  case (Start_game a b)
  assume "separated w"
  then show ?thesis using Start_game unfolding separated_def
    by (simp add: start_game_def Let_def set_score_def set_name_def split: option.splits)
next
  case Init_bonus
  assume "separated w"
  then show ?thesis using Init_bonus unfolding separated_def
    by (simp add: init_bonus_def Let_def)
next
  case Reset_game
  assume "separated w"
  then show ?thesis using Reset_game unfolding separated_def
    by (simp add: reset_game_def Let_def set_score_def set_phase_def)
next
  case Trigger_snapshot
  assume "separated w"
  then show ?thesis using Trigger_snapshot unfolding separated_def
    by (simp add: on_trigger_snapshot_def Let_def start_background_task_def set_phase_def
        socketio_emit_def)
next
  case Scan_timeout
  assume "separated w"
  then show ?thesis using Scan_timeout unfolding separated_def
    by (simp add: on_scan_timeout_def Let_def set_phase_def)
next
  case Scan_complete
  assume "separated w"
  then show ?thesis using Scan_complete by (simp add: on_scan_complete_def)
next
  case Connect
  assume "separated w"
  then show ?thesis using Connect unfolding separated_def by (simp add: on_connect_def)
qed

lemma run_separated: "separated w \<Longrightarrow> separated (run words es w)"
  by (induction es arbitrary: w) (simp_all add: step_separated)

lemma initial_separated: "separated initial_world"
  by (simp add: separated_def apart_def initial_world_def)

lemma team_change_detected:
  assumes sep: "separated w" and sync: "skips False w"
    and a: "a = teamA (state w) \<or> a = teamB (state w)" and t: "t \<noteq> heap w a"
  shows "pushes False (w\<lparr>heap := (heap w)(a := t)\<rparr>)"
proof -
  obtain l where l: "last_emitted_state w = Some l" using sync by (auto simp add: skips_def)
  have eq: "heap w (teamA l) = heap w (teamA (state w))"
    "heap w (teamB l) = heap w (teamB (state w))"
    using sync l by (simp_all add: skips_def snapshot_eq_def)
  have ne: "teamA l \<noteq> a" "teamB l \<noteq> a"
    using sep l a by (auto simp add: separated_def apart_def)
  have "\<not> snapshot_eq ((heap w)(a := t)) l (state w)"
    using a eq ne t by (auto simp add: snapshot_eq_def)
  then show ?thesis using l by (simp add: pushes_iff skips_def)
qed

lemma field_change_detected:
  assumes sync: "skips False w"
    and refs: "teamA s = teamA (state w)" "teamB s = teamB (state w)" and s: "s \<noteq> state w"
  shows "pushes False (w\<lparr>state := s\<rparr>)"
proof -
  obtain l where l: "last_emitted_state w = Some l" using sync by (auto simp add: skips_def)
  have old: "snapshot_eq (heap w) l (state w)" using sync l by (simp add: skips_def)
  have "\<not> snapshot_eq (heap w) l s"
  proof
    assume new: "snapshot_eq (heap w) l s"
    have "s = state w"
      using old new refs by (intro session.equality) (simp_all add: snapshot_eq_def)
    then show False using s by simp
  qed
  then show ?thesis using l by (simp add: pushes_iff skips_def)
qed

text \<open>
  Had the snapshot been kept without \<open>deepcopy\<close>, its team dictionaries would be the ones of
  \<open>state\<close>, and a change of a score would go unseen.
\<close>

lemma live_reference_misses_change:
  "\<not> pushes False (set_score a v (w\<lparr>last_emitted_state := Some (state w)\<rparr>))"
  by (simp add: pushes_iff skips_def snapshot_eq_def set_score_def)

section \<open>The concrete inputs\<close>

lemmas handler_defs = start_game_def init_bonus_def reset_game_def submit_def on_trigger_def
  on_trigger_snapshot_def on_scan_timeout_def on_scan_complete_def on_connect_def fire_def
  set_phase_def set_score_def set_name_def start_background_task_def socketio_emit_def
  add_points_def used_words_add_def Let_def flip_team_def timer_result_def
  initial_world_def initial_state_def MIN_WORD_LEN_def

lemma request_word_apple: "request_word (Some ''apple'') = ''apple''"
  by code_simp

lemma request_word_Apple: "request_word (Some '' Apple '') = ''apple''"
  by code_simp

lemma request_word_bread: "request_word (Some ''bread'') = ''bread''"
  by code_simp

lemma request_word_None: "request_word None = []"
  by code_simp

lemma points_by_len_get_table:
  "points_by_len_get n =
     (if n = 5 then 3 else if n = 6 then 5 else if n = 7 then 8 else if n = 8 then 13 else 0)"
  by (simp add: points_by_len_get_def POINTS_BY_LEN_def)

lemma points_nonneg: "0 \<le> points_by_len_get n" "0 \<le> bonus_points n"
  by (simp_all add: points_by_len_get_table bonus_points_def)

lemma initial_world_facts:
  "phase (state initial_world) = ''intro''"
  "round_id (state initial_world) = 0"
  "last_trigger_at (state initial_world) = 0"
  "current_team (state initial_world) = ''A''"
  "used_words (state initial_world) = []"
  "teamA (state initial_world) = 0"
  "teamB (state initial_world) = 1"
  "score (heap initial_world 0) = 0"
  "tasks initial_world = []"
  by (simp_all add: initial_world_def initial_state_def)

lemma bonus_active_world_facts:
  "phase (state bonus_active_world) = ''bonus_active''"
  "\<not> bonus_submitted (state bonus_active_world)"
  "round_id (state bonus_active_world) = 1"
  "tasks bonus_active_world = [Bonus_sleep60 1]"
  "current_team (state bonus_active_world) = ''A''"
  "teamA (state bonus_active_world) = 0"
  "teamB (state bonus_active_world) = 1"
  "score (heap bonus_active_world 0) = 0"
  "used_words (state bonus_active_world) = []"
  by (simp_all add: bonus_active_world_def handler_defs)

lemma bonus_submitted_world_facts:
  "phase (state bonus_submitted_world) = ''bonus_intro''"
  "bonus_submitted (state bonus_submitted_world)"
  "round_id (state bonus_submitted_world) = 1"
  "tasks bonus_submitted_world = [Bonus_sleep60 1, Game_over_sleep12]"
  "current_team (state bonus_submitted_world) = ''A''"
  "teamA (state bonus_submitted_world) = 0"
  "teamB (state bonus_submitted_world) = 1"
  "score (heap bonus_submitted_world 0) = 7"
  "used_words (state bonus_submitted_world) = []"
  by (simp_all add: bonus_submitted_world_def handler_defs bonus_active_world_facts
      request_word_apple example_words_def bonus_points_def)

lemma stale_countdown_world_facts:
  "phase (state stale_countdown_world) = ''intro''"
  "round_id (state stale_countdown_world) = 2"
  "last_trigger_at (state stale_countdown_world) = 0"
  "tasks stale_countdown_world = [Countdown_sleep3 1]"
  by (simp_all add: stale_countdown_world_def handler_defs)

lemma result_shown_world_facts:
  "phase (state result_shown_world) = ''idle''"
  "round_id (state result_shown_world) = 1"
  "tasks result_shown_world = [Clear_result_sleep5, Countdown_begin, Clear_result_sleep5]"
  "last_result (state result_shown_world) =
     Some \<lparr>res_id = 11, res_word = [], res_valid = False, res_len = Some 0,
           res_tier = Some None, res_points = 0, res_reason = ''too_short''\<rparr>"
  by (simp_all add: result_shown_world_def handler_defs request_word_None tier_for_len_def)

section \<open>Full reset\<close>

text \<open>
  Claim C6. Whatever the session was, \<open>start_game\<close> answers \<open>{ok: true}\<close> and leaves both
  team scores at 0, \<open>used_words\<close> empty, the phase \<open>intro\<close>, \<open>last_result\<close> cleared,
  \<open>bonus_submitted\<close> false and a \<open>round_id\<close> strictly greater than before.
\<close>

theorem start_game_full_reset:
  "fst (start_game a b w) = Ok_true \<and>
   scoreA (snd (start_game a b w)) = 0 \<and>
   scoreB (snd (start_game a b w)) = 0 \<and>
   used_words (state (snd (start_game a b w))) = [] \<and>
   phase (state (snd (start_game a b w))) = ''intro'' \<and>
   last_result (state (snd (start_game a b w))) = None \<and>
   \<not> bonus_submitted (state (snd (start_game a b w))) \<and>
   round_id (state w) < round_id (state (snd (start_game a b w)))"
  by (simp add: start_game_def Let_def scoreA_def scoreB_def score_of_def set_score_def
      set_name_def split: option.splits)

theorem start_game_full_reset_witness:
  "fst (start_game (Some ''Reds'') None bonus_submitted_world) = Ok_true \<and>
   scoreA bonus_submitted_world = 7 \<and>
   scoreA (snd (start_game (Some ''Reds'') None bonus_submitted_world)) = 0 \<and>
   scoreB (snd (start_game (Some ''Reds'') None bonus_submitted_world)) = 0 \<and>
   used_words (state (snd (start_game (Some ''Reds'') None bonus_submitted_world))) = [] \<and>
   phase (state (snd (start_game (Some ''Reds'') None bonus_submitted_world))) = ''intro'' \<and>
   last_result (state (snd (start_game (Some ''Reds'') None bonus_submitted_world))) = None \<and>
   \<not> bonus_submitted (state (snd (start_game (Some ''Reds'') None bonus_submitted_world))) \<and>
   round_id (state bonus_submitted_world)
     < round_id (state (snd (start_game (Some ''Reds'') None bonus_submitted_world)))"
  using start_game_full_reset [of "Some ''Reds''" None bonus_submitted_world]
  by (simp add: scoreA_def score_of_def bonus_submitted_world_facts)

section \<open>Scan failure reported by the client\<close>

text \<open>
  Claim C10. \<open>on_scan_timeout\<close> rewrites the phase from every phase, whatever the
  \<open>round_id\<close> and without asking that a scan is under way: to \<open>bonus_scan_failed\<close> when
  the name of the current phase contains \<open>bonus\<close>, to \<open>scan_failed\<close> otherwise; so from
  each of the seven phases outside the bonus flow to \<open>scan_failed\<close>, and from each of the
  five bonus phases to \<open>bonus_scan_failed\<close>. No other field of the session changes.
\<close>

theorem on_scan_timeout_unguarded:
  "state (on_scan_timeout w) =
     (state w)\<lparr>phase := (if contains ''bonus'' (phase (state w))
                          then ''bonus_scan_failed'' else ''scan_failed'')\<rparr> \<and>
   (phase (state w) \<in> {''intro'', ''idle'', ''countdown'', ''active'', ''scanning'',
                        ''scan_failed'', ''game_over''}
      \<longrightarrow> phase (state (on_scan_timeout w)) = ''scan_failed'') \<and>
   (phase (state w) \<in> {''bonus_intro'', ''bonus_countdown'', ''bonus_active'',
                        ''bonus_scanning'', ''bonus_scan_failed''}
      \<longrightarrow> phase (state (on_scan_timeout w)) = ''bonus_scan_failed'')"
  by (auto simp add: on_scan_timeout_def Let_def set_phase_def)

theorem on_scan_timeout_unguarded_witness:
  "phase (state initial_world) \<in> {''intro'', ''idle'', ''countdown'', ''active'', ''scanning'',
                        ''scan_failed'', ''game_over''} \<and>
   phase (state (on_scan_timeout initial_world)) = ''scan_failed'' \<and>
   phase (state bonus_submitted_world)
     \<in> {''bonus_intro'', ''bonus_countdown'', ''bonus_active'', ''bonus_scanning'',
        ''bonus_scan_failed''} \<and>
   phase (state (on_scan_timeout bonus_submitted_world)) = ''bonus_scan_failed''"
  using on_scan_timeout_unguarded [of initial_world]
    on_scan_timeout_unguarded [of bonus_submitted_world]
  by (simp add: initial_world_facts bonus_submitted_world_facts)

section \<open>Debounce of the moderator trigger\<close>









section \<open>Word submission\<close>

subsection \<open>The bonus round\<close>

text \<open>
  Claim C2, as stated, fails: \<open>submit\<close> takes its bonus branch in the phases
  \<open>bonus_active\<close>, \<open>bonus_scanning\<close> and \<open>bonus_scan_failed\<close> only. In \<open>bonus_intro\<close>
  with \<open>bonus_submitted\<close> false (the world right after \<open>init_bonus\<close>) a submission is
  handled as a standard one: the phase becomes \<open>idle\<close>, \<open>bonus_submitted\<close> stays false and
  the only task started is the result-clear timer.
\<close>

theorem submit_bonus_intro_counterexample:
  "phase (state (snd (init_bonus initial_world))) = ''bonus_intro'' \<and>
   \<not> bonus_submitted (state (snd (init_bonus initial_world))) \<and>
   phase (state (snd (submit example_words (Some ''apple'') 1 (snd (init_bonus initial_world)))))
     = ''idle'' \<and>
   \<not> bonus_submitted
       (state (snd (submit example_words (Some ''apple'') 1 (snd (init_bonus initial_world))))) \<and>
   tasks (snd (submit example_words (Some ''apple'') 1 (snd (init_bonus initial_world))))
     = [Clear_result_sleep5]"
  by (simp add: handler_defs request_word_apple example_words_def)

text \<open>
  Claim C2, amended. For every word submission arriving while the phase is \<open>bonus_active\<close>,
  \<open>bonus_scanning\<close> or \<open>bonus_scan_failed\<close> and \<open>bonus_submitted\<close> is false, \<open>submit\<close>
  applies the bonus-round logic: it records a result (with the verdict, points and reason
  of its answer), sets \<open>bonus_submitted\<close>, sets the phase to \<open>bonus_intro\<close> and starts the
  game-over transition, whether the word is valid or not.
\<close>

theorem submit_bonus_round:
  assumes "phase (state w) \<in> {''bonus_active'', ''bonus_scanning'', ''bonus_scan_failed''}"
    and "\<not> bonus_submitted (state w)"
  shows "let word = request_word d; (r, w') = submit words d now w in
     last_result (state w') =
       Some \<lparr>res_id = now, res_word = word, res_valid = valid r, res_len = Some (length word),
             res_tier = Some (Some (str (length word))), res_points = points r,
             res_reason = reason r\<rparr> \<and>
     bonus_submitted (state w') \<and>
     phase (state w') = ''bonus_intro'' \<and>
     tasks w' = tasks w @ [Game_over_sleep12] \<and>
     (valid r \<longleftrightarrow> 5 \<le> length word \<and> word \<in> words) \<and>
     status r = 200"
  using assms
  by (simp add: submit_def Let_def start_background_task_def add_points_def set_score_def)

theorem submit_bonus_round_witness:
  "phase (state bonus_active_world) \<in> {''bonus_active'', ''bonus_scanning'', ''bonus_scan_failed''} \<and>
   \<not> bonus_submitted (state bonus_active_world) \<and>
   bonus_submitted (state (snd (submit example_words (Some ''apple'') 20 bonus_active_world))) \<and>
   phase (state (snd (submit example_words (Some ''apple'') 20 bonus_active_world)))
     = ''bonus_intro'' \<and>
   tasks (snd (submit example_words (Some ''apple'') 20 bonus_active_world))
     = [Bonus_sleep60 1, Game_over_sleep12] \<and>
   valid (fst (submit example_words (Some ''apple'') 20 bonus_active_world)) \<and>
   bonus_submitted (state (snd (submit example_words None 20 bonus_active_world))) \<and>
   phase (state (snd (submit example_words None 20 bonus_active_world))) = ''bonus_intro'' \<and>
   \<not> valid (fst (submit example_words None 20 bonus_active_world))"
proof -
  have a: "phase (state bonus_active_world)
             \<in> {''bonus_active'', ''bonus_scanning'', ''bonus_scan_failed''}"
    by (simp add: bonus_active_world_facts)
  have b: "\<not> bonus_submitted (state bonus_active_world)"
    by (simp add: bonus_active_world_facts)
  show ?thesis
    using a b submit_bonus_round [OF a b, of "Some ''apple''" example_words 20]
      submit_bonus_round [OF a b, of None example_words 20]
    by (simp add: Let_def split_beta bonus_active_world_facts request_word_apple
        request_word_None example_words_def)
qed

text \<open>
  Where the guard of the bonus branch fires, \<open>submit\<close> answers \<open>already_submitted\<close> with
  status 400 and returns the world it was given.
\<close>

lemma submit_already_submitted:
  assumes "phase (state w) \<in> {''bonus_active'', ''bonus_scanning'', ''bonus_scan_failed''}"
    and "bonus_submitted (state w)"
  shows "submit words d now w =
     (\<lparr>valid = False, points = 0, reason = ''already_submitted'', status = 400\<rparr>, w)"
  using assms by (simp add: submit_def Let_def)

text \<open>
  The guard is all but dead: \<open>submit\<close> and the bonus-round limit set \<open>bonus_submitted\<close>
  together with the phase \<open>bonus_intro\<close>, and the trigger that leaves \<open>bonus_intro\<close>
  clears the flag. Along every run without a \<open>scan_timeout\<close> event no world has
  \<open>bonus_submitted\<close> set in one of the three phases of the bonus branch.
\<close>

lemma run_task_closed: "bonus_round_closed w \<Longrightarrow> bonus_round_closed (snd (run_task t now w))"
  unfolding bonus_round_closed_def
  by (cases t) (auto simp add: Let_def start_background_task_def set_phase_def)

lemma fire_closed: "bonus_round_closed w \<Longrightarrow> bonus_round_closed (fire i now w)"
proof (cases "i < length (tasks w)")
  case True
  assume s: "bonus_round_closed w"
  obtain nx w1 where r: "run_task (tasks w ! i) now w = (nx, w1)"
    by (cases "run_task (tasks w ! i) now w")
  have "bonus_round_closed w1" using run_task_closed [OF s, of "tasks w ! i" now] r by simp
  then show ?thesis using True r
    by (cases nx) (simp_all add: fire_def bonus_round_closed_def)
next
  case False
  then show "bonus_round_closed w \<Longrightarrow> bonus_round_closed (fire i now w)" by (simp add: fire_def)
qed

lemma submit_closed: "bonus_round_closed w \<Longrightarrow> bonus_round_closed (snd (submit words d now w))"
  unfolding bonus_round_closed_def
  by (simp add: submit_def Let_def start_background_task_def add_points_def set_score_def
      used_words_add_def split: if_splits)

lemma on_trigger_closed: "bonus_round_closed w \<Longrightarrow> bonus_round_closed (on_trigger now w)"
  unfolding bonus_round_closed_def
  by (simp add: on_trigger_def Let_def start_background_task_def set_phase_def
      socketio_emit_def split: if_splits)

lemma on_trigger_snapshot_closed:
  "bonus_round_closed w \<Longrightarrow> bonus_round_closed (on_trigger_snapshot w)"
  unfolding bonus_round_closed_def
  by (auto simp add: on_trigger_snapshot_def Let_def start_background_task_def set_phase_def
      socketio_emit_def)

lemma step_closed:
  "e \<noteq> Scan_timeout \<Longrightarrow> bonus_round_closed w \<Longrightarrow> bonus_round_closed (step words e w)"
proof (cases e)
  case (Start_game a b)
  then show ?thesis
    by (simp add: bonus_round_closed_def start_game_def Let_def set_score_def set_name_def
        split: option.splits)
next
  case Init_bonus
  then show ?thesis by (simp add: bonus_round_closed_def init_bonus_def Let_def)
next
  case Reset_game
  then show ?thesis
    by (simp add: bonus_round_closed_def reset_game_def Let_def set_score_def set_phase_def)
next
  case (Submit d now)
  assume "bonus_round_closed w"
  then show ?thesis using Submit by (simp add: submit_closed)
next
  case (Game_trigger now)
  assume "bonus_round_closed w"
  then show ?thesis using Game_trigger by (simp add: on_trigger_closed)
next
  case Trigger_snapshot
  assume "bonus_round_closed w"
  then show ?thesis using Trigger_snapshot by (simp add: on_trigger_snapshot_closed)
next
  case Scan_timeout
  assume "e \<noteq> Scan_timeout"
  then show ?thesis using Scan_timeout by simp
next
  case Scan_complete
  assume "bonus_round_closed w"
  then show ?thesis using Scan_complete by (simp add: on_scan_complete_def)
next
  case Connect
  assume "bonus_round_closed w"
  then show ?thesis using Connect by (simp add: on_connect_def bonus_round_closed_def)
next
  case (Fire i now)
  assume "bonus_round_closed w"
  then show ?thesis using Fire by (simp add: fire_closed)
qed

lemma run_closed:
  "Scan_timeout \<notin> set es \<Longrightarrow> bonus_round_closed w \<Longrightarrow> bonus_round_closed (run words es w)"
proof (induction es arbitrary: w)
  case Nil
  then show ?case by simp
next
  case (Cons e es)
  have "e \<noteq> Scan_timeout" using Cons.prems(1) by auto
  then have "bonus_round_closed (step words e w)" using Cons.prems(2) by (rule step_closed)
  moreover have "Scan_timeout \<notin> set es" using Cons.prems(1) by simp
  ultimately show ?case using Cons.IH by simp
qed

lemma already_submitted_guard_unreachable:
  assumes "Scan_timeout \<notin> set es"
    and "phase (state (run words es initial_world))
           \<in> {''bonus_active'', ''bonus_scanning'', ''bonus_scan_failed''}"
  shows "\<not> bonus_submitted (state (run words es initial_world))"
proof -
  have "bonus_round_closed initial_world"
    by (simp add: bonus_round_closed_def initial_world_def initial_state_def)
  then have "bonus_round_closed (run words es initial_world)"
    using assms(1) by (rule run_closed [rotated])
  then show ?thesis using assms(2) by (auto simp add: bonus_round_closed_def split: if_splits)
qed

text \<open>
  Claim C8 says that a word submitted in a bonus phase once \<open>bonus_submitted\<close> is true is
  answered \<open>valid\<close> false, \<open>points\<close> 0, reason \<open>already_submitted\<close>, with the session left
  as it was. \<open>submit\<close> checks for this (\<open>Check if bonus already submitted\<close>), but it sets
  \<open>bonus_submitted\<close> and the phase \<open>bonus_intro\<close> in one go, and \<open>bonus_intro\<close> is not a
  phase of its bonus branch. So in the very state the one bonus submission leaves behind,
  a further submission is never answered \<open>already_submitted\<close>: it is handled as a word of
  the standard round, judged against \<open>used_words\<close> and the dictionary, scored from the
  standard table on the score of the team, recorded as the new \<open>last_result\<close>, and the
  phase becomes \<open>idle\<close>.
\<close>

theorem second_bonus_submission_scored:
  assumes "phase (state w) = ''bonus_intro''" and "bonus_submitted (state w)"
  shows "let word = request_word d; n = length word; (r, w') = submit words d now w;
             a = (if current_team (state w) = ''A'' then teamA (state w) else teamB (state w)) in
     reason r \<noteq> ''already_submitted'' \<and>
     status r = 200 \<and>
     (valid r \<longleftrightarrow> 5 \<le> n \<and> word \<notin> set (used_words (state w)) \<and> word \<in> words) \<and>
     (valid r \<longrightarrow> points r = points_by_len_get n \<and>
                 score_of w' a = score_of w a + points_by_len_get n) \<and>
     phase (state w') = ''idle'' \<and>
     last_result (state w') =
       Some \<lparr>res_id = now, res_word = word, res_valid = valid r, res_len = Some n,
             res_tier = Some (tier_for_len n), res_points = points r,
             res_reason = reason r\<rparr> \<and>
     tasks w' = tasks w @ [Clear_result_sleep5]"
  using assms
  by (simp add: submit_def Let_def start_background_task_def add_points_def set_score_def
      used_words_add_def MIN_WORD_LEN_def score_of_def)

theorem second_bonus_submission_scored_witness:
  "phase (state bonus_submitted_world) = ''bonus_intro'' \<and>
   bonus_submitted (state bonus_submitted_world) \<and>
   scoreA bonus_submitted_world = 7 \<and>
   fst (submit example_words (Some ''bread'') 21 bonus_submitted_world)
     = \<lparr>valid = True, points = 3, reason = ''ok'', status = 200\<rparr> \<and>
   reason (fst (submit example_words (Some ''bread'') 21 bonus_submitted_world))
     \<noteq> ''already_submitted'' \<and>
   scoreA (snd (submit example_words (Some ''bread'') 21 bonus_submitted_world)) = 10 \<and>
   phase (state (snd (submit example_words (Some ''bread'') 21 bonus_submitted_world))) = ''idle''"
proof -
  have a: "phase (state bonus_submitted_world) = ''bonus_intro''"
    by (simp add: bonus_submitted_world_facts)
  have b: "bonus_submitted (state bonus_submitted_world)"
    by (simp add: bonus_submitted_world_facts)
  have c: "fst (submit example_words (Some ''bread'') 21 bonus_submitted_world)
     = \<lparr>valid = True, points = 3, reason = ''ok'', status = 200\<rparr>"
    by (simp add: submit_def Let_def MIN_WORD_LEN_def bonus_submitted_world_facts
        request_word_bread example_words_def points_by_len_get_table)
  have d: "teamA (state (snd (submit example_words (Some ''bread'') 21 bonus_submitted_world))) = 0"
    by (simp add: submit_def Let_def start_background_task_def add_points_def set_score_def
        used_words_add_def bonus_submitted_world_facts)
  show ?thesis
    using a b c d
      second_bonus_submission_scored [OF a b, of "Some ''bread''" example_words 21]
    by (simp add: Let_def split_beta bonus_submitted_world_facts request_word_bread
        example_words_def points_by_len_get_table scoreA_def score_of_def)
qed

subsection \<open>The standard round\<close>

text \<open>
  Claim C4. Outside the three phases of the bonus branch, hence in every non-bonus phase,
  \<open>submit\<close> does this with the word of the request (stripped and lower-cased): the word
  is valid iff its length is at least 5, it is not in \<open>used_words\<close> and it is in the
  dictionary; the reason is the first failing check in the order \<open>too_short\<close>,
  \<open>duplicate\<close>, \<open>not_in_dictionary\<close>, else \<open>ok\<close>; a valid word is added to \<open>used_words\<close>
  and its points are added to the score of the team whose turn it was; an invalid word
  changes neither; \<open>current_team\<close> flips in both cases; the phase becomes \<open>idle\<close>.
\<close>

theorem submit_standard_round:
  assumes "phase (state w) \<notin> {''bonus_active'', ''bonus_scanning'', ''bonus_scan_failed''}"
  shows "let word = request_word d; n = length word; (r, w') = submit words d now w;
             a = (if current_team (state w) = ''A'' then teamA (state w) else teamB (state w)) in
     (valid r \<longleftrightarrow> 5 \<le> n \<and> word \<notin> set (used_words (state w)) \<and> word \<in> words) \<and>
     reason r = (if n < 5 then ''too_short''
                 else if word \<in> set (used_words (state w)) then ''duplicate''
                 else if word \<notin> words then ''not_in_dictionary'' else ''ok'') \<and>
     (valid r \<longrightarrow> set (used_words (state w')) = insert word (set (used_words (state w))) \<and>
                 score_of w' a = score_of w a + points r) \<and>
     (\<not> valid r \<longrightarrow> used_words (state w') = used_words (state w) \<and>
                 scoreA w' = scoreA w \<and> scoreB w' = scoreB w) \<and>
     current_team (state w') = (if current_team (state w) = ''A'' then ''B'' else ''A'') \<and>
     phase (state w') = ''idle''"
  using assms
  by (simp add: submit_def Let_def start_background_task_def add_points_def set_score_def
      used_words_add_def MIN_WORD_LEN_def score_of_def scoreA_def scoreB_def)

theorem submit_standard_round_witness:
  "phase (state initial_world) \<notin> {''bonus_active'', ''bonus_scanning'', ''bonus_scan_failed''} \<and>
   valid (fst (submit example_words (Some '' Apple '') 1 initial_world)) \<and>
   reason (fst (submit example_words (Some '' Apple '') 1 initial_world)) = ''ok'' \<and>
   set (used_words (state (snd (submit example_words (Some '' Apple '') 1 initial_world))))
     = {''apple''} \<and>
   score_of (snd (submit example_words (Some '' Apple '') 1 initial_world)) 0
     = points (fst (submit example_words (Some '' Apple '') 1 initial_world)) \<and>
   current_team (state (snd (submit example_words (Some '' Apple '') 1 initial_world))) = ''B'' \<and>
   phase (state (snd (submit example_words (Some '' Apple '') 1 initial_world))) = ''idle''"
proof -
  have a: "phase (state initial_world)
             \<notin> {''bonus_active'', ''bonus_scanning'', ''bonus_scan_failed''}"
    by (simp add: initial_world_facts)
  show ?thesis
    using a submit_standard_round [OF a, of "Some '' Apple ''" example_words 1]
    by (simp add: Let_def split_beta initial_world_facts request_word_Apple example_words_def
        score_of_def)
qed

subsection \<open>Points\<close>



section \<open>Scores\<close>

text \<open>
  What a step other than a reset does to the team dictionaries of the session: the
  references stay, the scores do not go down.
\<close>

lemma run_task_scores:
  "teamA (state (snd (run_task t now w))) = teamA (state w) \<and>
   teamB (state (snd (run_task t now w))) = teamB (state w) \<and>
   heap (snd (run_task t now w)) (teamA (state w)) = heap w (teamA (state w)) \<and>
   heap (snd (run_task t now w)) (teamB (state w)) = heap w (teamB (state w))"
  by (cases t) (simp_all add: Let_def start_background_task_def set_phase_def)

lemma fire_scores: "scoreA (fire i now w) = scoreA w \<and> scoreB (fire i now w) = scoreB w"
proof (cases "i < length (tasks w)")
  case True
  obtain nx w1 where r: "run_task (tasks w ! i) now w = (nx, w1)"
    by (cases "run_task (tasks w ! i) now w")
  have "teamA (state w1) = teamA (state w) \<and> teamB (state w1) = teamB (state w) \<and>
        heap w1 (teamA (state w)) = heap w (teamA (state w)) \<and>
        heap w1 (teamB (state w)) = heap w (teamB (state w))"
    using run_task_scores [of "tasks w ! i" now w] r by simp
  then show ?thesis using True r
    by (cases nx) (simp_all add: fire_def scoreA_def scoreB_def score_of_def)
next
  case False
  then show ?thesis by (simp add: fire_def)
qed

lemma submit_scores:
  "scoreA w \<le> scoreA (snd (submit words d now w)) \<and>
   scoreB w \<le> scoreB (snd (submit words d now w))"
  using points_nonneg
  by (simp add: scoreA_def scoreB_def score_of_def submit_def Let_def
      start_background_task_def add_points_def set_score_def used_words_add_def)

lemma on_trigger_scores:
  "scoreA (on_trigger now w) = scoreA w \<and> scoreB (on_trigger now w) = scoreB w"
  by (simp add: scoreA_def scoreB_def score_of_def on_trigger_def Let_def
      start_background_task_def set_phase_def socketio_emit_def)

lemma on_trigger_snapshot_scores:
  "scoreA (on_trigger_snapshot w) = scoreA w \<and> scoreB (on_trigger_snapshot w) = scoreB w"
  by (simp add: scoreA_def scoreB_def score_of_def on_trigger_snapshot_def Let_def
      start_background_task_def set_phase_def socketio_emit_def)

lemma other_handlers_scores:
  "scoreA (snd (init_bonus w)) = scoreA w \<and> scoreB (snd (init_bonus w)) = scoreB w"
  "scoreA (on_scan_timeout w) = scoreA w \<and> scoreB (on_scan_timeout w) = scoreB w"
  "scoreA (on_scan_complete w) = scoreA w \<and> scoreB (on_scan_complete w) = scoreB w"
  "scoreA (on_connect w) = scoreA w \<and> scoreB (on_connect w) = scoreB w"
  by (simp_all add: scoreA_def scoreB_def score_of_def init_bonus_def on_scan_timeout_def
      on_scan_complete_def on_connect_def Let_def set_phase_def)

lemma step_scores:
  "\<not> zeroes_scores e \<Longrightarrow>
   scoreA w \<le> scoreA (step words e w) \<and> scoreB w \<le> scoreB (step words e w)"
  by (cases e)
    (simp_all add: submit_scores on_trigger_scores on_trigger_snapshot_scores
      other_handlers_scores fire_scores)

lemma run_scores:
  "\<forall>e \<in> set es. \<not> zeroes_scores e \<Longrightarrow>
   scoreA w \<le> scoreA (run words es w) \<and> scoreB w \<le> scoreB (run words es w)"
proof (induction es arbitrary: w)
  case Nil
  then show ?case by simp
next
  case (Cons e es)
  have "scoreA w \<le> scoreA (step words e w) \<and> scoreB w \<le> scoreB (step words e w)"
    using Cons.prems by (simp add: step_scores)
  moreover have "scoreA (step words e w) \<le> scoreA (run words es (step words e w)) \<and>
      scoreB (step words e w) \<le> scoreB (run words es (step words e w))"
    using Cons by simp
  ultimately show ?case by simp
qed

lemma reset_game_scores:
  "scoreA (snd (reset_game w)) = 0 \<and> scoreB (snd (reset_game w)) = 0"
  by (simp add: reset_game_def Let_def scoreA_def scoreB_def score_of_def set_score_def
      set_phase_def)

text \<open>
  Claim C3, as stated, fails: \<open>reset_game\<close> sets both scores to 0 as \<open>start_game\<close> does.
  After one valid word team A has 3 points, and \<open>reset_game\<close> takes them away.
\<close>

theorem reset_game_lowers_score_counterexample:
  "scoreA (run example_words [Submit (Some ''apple'') 1] initial_world) = 3 \<and>
   scoreA (run example_words [Submit (Some ''apple'') 1, Reset_game] initial_world) = 0"
  by (simp add: handler_defs scoreA_def score_of_def request_word_apple example_words_def
      points_by_len_get_table)

text \<open>
  Claim C3, amended. Along every sequence of operations (requests, realtime events and
  steps of the timers) that contains neither \<open>start_game\<close> nor \<open>reset_game\<close>, the score of
  each team never goes down; \<open>start_game\<close> and \<open>reset_game\<close> are the operations that set a
  score back, both of them to 0. The partial reset \<open>init_bonus\<close> leaves the scores alone.
\<close>

theorem scores_non_decreasing:
  "((\<forall>e \<in> set es. \<not> zeroes_scores e) \<longrightarrow>
      scoreA w \<le> scoreA (run words es w) \<and> scoreB w \<le> scoreB (run words es w)) \<and>
   scoreA (step words (Start_game a b) w) = 0 \<and> scoreB (step words (Start_game a b) w) = 0 \<and>
   scoreA (step words Reset_game w) = 0 \<and> scoreB (step words Reset_game w) = 0 \<and>
   scoreA (step words Init_bonus w) = scoreA w \<and> scoreB (step words Init_bonus w) = scoreB w"
proof (intro conjI impI)
  assume "\<forall>e \<in> set es. \<not> zeroes_scores e"
  then show "scoreA w \<le> scoreA (run words es w)" "scoreB w \<le> scoreB (run words es w)"
    using run_scores by simp_all
next
  show "scoreA (step words (Start_game a b) w) = 0" "scoreB (step words (Start_game a b) w) = 0"
    by (simp_all add: start_game_def Let_def scoreA_def scoreB_def score_of_def set_score_def
        set_name_def split: option.splits)
next
  show "scoreA (step words Reset_game w) = 0" "scoreB (step words Reset_game w) = 0"
    by (simp_all add: reset_game_scores)
next
  show "scoreA (step words Init_bonus w) = scoreA w" "scoreB (step words Init_bonus w) = scoreB w"
    by (simp_all add: other_handlers_scores)
qed

theorem scores_non_decreasing_witness:
  "\<not> zeroes_scores (Submit (Some ''bread'') 21) \<and>
   \<not> zeroes_scores Init_bonus \<and>
   \<not> zeroes_scores (Game_trigger 30) \<and>
   \<not> zeroes_scores (Fire 0 40) \<and>
   scoreA bonus_submitted_world = 7 \<and>
   scoreA bonus_submitted_world
     \<le> scoreA (run example_words [Submit (Some ''bread'') 21, Init_bonus, Game_trigger 30, Fire 0 40]
                 bonus_submitted_world) \<and>
   scoreB bonus_submitted_world
     \<le> scoreB (run example_words [Submit (Some ''bread'') 21, Init_bonus, Game_trigger 30, Fire 0 40]
                 bonus_submitted_world) \<and>
   scoreA (step example_words Reset_game bonus_submitted_world) = 0"
proof -
  have a: "\<forall>e \<in> set [Submit (Some ''bread'') 21, Init_bonus, Game_trigger 30, Fire 0 40].
             \<not> zeroes_scores e"
    by simp
  have b: "scoreA bonus_submitted_world = 7"
    by (simp add: scoreA_def score_of_def bonus_submitted_world_facts)
  show ?thesis
    using a b
      scores_non_decreasing
        [of "[Submit (Some ''bread'') 21, Init_bonus, Game_trigger 30, Fire 0 40]"
          bonus_submitted_world example_words None None]
    by simp
qed

section \<open>Stale timers\<close>

lemma run_task_round_id: "round_id (state w) \<le> round_id (state (snd (run_task t now w)))"
  by (cases t) (simp_all add: Let_def start_background_task_def set_phase_def)

lemma fire_round_id: "round_id (state w) \<le> round_id (state (fire i now w))"
proof (cases "i < length (tasks w)")
  case True
  obtain nx w1 where r: "run_task (tasks w ! i) now w = (nx, w1)"
    by (cases "run_task (tasks w ! i) now w")
  have "round_id (state w) \<le> round_id (state w1)"
    using run_task_round_id [of w "tasks w ! i" now] r by simp
  then show ?thesis using True r
    by (cases nx) (simp_all add: fire_def)
next
  case False
  then show ?thesis by (simp add: fire_def)
qed

lemma step_round_id: "round_id (state w) \<le> round_id (state (step words e w))"
proof (cases e)
  case (Submit d now)
  then show ?thesis
    by (simp add: submit_def Let_def start_background_task_def add_points_def set_score_def
        used_words_add_def)
next
  case (Game_trigger now)
  then show ?thesis
    by (simp add: on_trigger_def Let_def start_background_task_def set_phase_def
        socketio_emit_def)
next
  case (Fire i now)
  then show ?thesis by (simp add: fire_round_id)
qed (simp_all add: start_game_def init_bonus_def reset_game_def on_trigger_snapshot_def
      on_scan_timeout_def on_scan_complete_def on_connect_def Let_def set_phase_def
      set_score_def set_name_def start_background_task_def socketio_emit_def
      split: option.splits)

lemma run_round_id: "round_id (state w) \<le> round_id (state (run words es w))"
proof (induction es arbitrary: w)
  case Nil
  then show ?case by simp
next
  case (Cons e es)
  have "round_id (state w) \<le> round_id (state (step words e w))" by (rule step_round_id)
  also have "\<dots> \<le> round_id (state (run words es (step words e w)))" by (rule Cons.IH)
  finally show ?case by simp
qed

lemma stale_timer_no_effect:
  assumes "t \<in> {Countdown_sleep3 my, Countdown_sleep30 my, Bonus_sleep3 my, Bonus_sleep60 my,
                 Watchdog_sleep11 my}"
    and "round_id (state w) \<noteq> my"
  shows "state (snd (run_task t now w)) = state w \<and>
         heap (snd (run_task t now w)) (teamA (state w)) = heap w (teamA (state w)) \<and>
         heap (snd (run_task t now w)) (teamB (state w)) = heap w (teamB (state w)) \<and>
         tasks (snd (run_task t now w)) = tasks w"
  using assms by auto

text \<open>
  Claim C1, as stated, fails for the two timers that capture no \<open>round_id\<close>.
  The result-clear timer started by the first submission below is still asleep when a
  trigger opens a round (\<open>round_id\<close> goes from 0 to 1) and a second submission records a
  new result; when it fires it finds the phase \<open>idle\<close> and clears that result.
  The game-over timer started by the bonus submission is still asleep when \<open>start_game\<close>
  opens a new game (\<open>round_id\<close> goes from 1 to 2, phase \<open>intro\<close>); when it fires it sets
  the phase to \<open>game_over\<close>.
\<close>

theorem stale_timer_counterexample:
  "tasks (run example_words [Submit None 1] initial_world) = [Clear_result_sleep5] \<and>
   round_id (state (run example_words [Submit None 1] initial_world)) = 0 \<and>
   round_id (state result_shown_world) = 1 \<and>
   tasks result_shown_world ! 0 = Clear_result_sleep5 \<and>
   last_result (state result_shown_world) \<noteq> None \<and>
   last_result (state (fire 0 12 result_shown_world)) = None \<and>
   tasks bonus_submitted_world ! 1 = Game_over_sleep12 \<and>
   round_id (state bonus_submitted_world) = 1 \<and>
   round_id (state (run example_words [Start_game None None] bonus_submitted_world)) = 2 \<and>
   phase (state (run example_words [Start_game None None] bonus_submitted_world)) = ''intro'' \<and>
   phase (state (run example_words [Start_game None None, Fire 1 33] bonus_submitted_world))
     = ''game_over''"
  by (simp add: handler_defs request_word_None tier_for_len_def result_shown_world_facts
      bonus_submitted_world_facts)

text \<open>
  Claim C1, amended. For the timers that capture \<open>round_id\<close> (the round countdown, the
  active-round limit, the bonus countdown, the bonus-round limit and the scan watchdog):
  once \<open>round_id\<close> has passed the value a timer captured, whatever happens afterwards and
  however late the timer fires, the step it takes changes no field of the session, leaves
  the team dictionaries (names and scores) as they are and starts no task.
  The result-clear timer captures no \<open>round_id\<close>: when it fires it never changes the phase
  or a score, and it clears \<open>last_result\<close> exactly when the phase is \<open>idle\<close>.
\<close>

theorem stale_timers_inert:
  "(t \<in> {Countdown_sleep3 my, Countdown_sleep30 my, Bonus_sleep3 my, Bonus_sleep60 my,
          Watchdog_sleep11 my} \<and> my < round_id (state w) \<longrightarrow>
      state (snd (run_task t now (run words es w))) = state (run words es w) \<and>
      heap (snd (run_task t now (run words es w))) (teamA (state (run words es w)))
        = heap (run words es w) (teamA (state (run words es w))) \<and>
      heap (snd (run_task t now (run words es w))) (teamB (state (run words es w)))
        = heap (run words es w) (teamB (state (run words es w))) \<and>
      tasks (snd (run_task t now (run words es w))) = tasks (run words es w)) \<and>
   state (snd (run_task Clear_result_sleep5 now w))
     = (if phase (state w) = ''idle'' then (state w)\<lparr>last_result := None\<rparr> else state w) \<and>
   heap (snd (run_task Clear_result_sleep5 now w)) (teamA (state w)) = heap w (teamA (state w)) \<and>
   heap (snd (run_task Clear_result_sleep5 now w)) (teamB (state w)) = heap w (teamB (state w))"
proof (intro conjI impI)
  assume h: "t \<in> {Countdown_sleep3 my, Countdown_sleep30 my, Bonus_sleep3 my, Bonus_sleep60 my,
                   Watchdog_sleep11 my} \<and> my < round_id (state w)"
  then have "my < round_id (state (run words es w))"
    using run_round_id [of w words es] by linarith
  then have ne: "round_id (state (run words es w)) \<noteq> my" by simp
  have t: "t \<in> {Countdown_sleep3 my, Countdown_sleep30 my, Bonus_sleep3 my, Bonus_sleep60 my,
                 Watchdog_sleep11 my}"
    using h by simp
  show "state (snd (run_task t now (run words es w))) = state (run words es w)"
    "heap (snd (run_task t now (run words es w))) (teamA (state (run words es w)))
       = heap (run words es w) (teamA (state (run words es w)))"
    "heap (snd (run_task t now (run words es w))) (teamB (state (run words es w)))
       = heap (run words es w) (teamB (state (run words es w)))"
    "tasks (snd (run_task t now (run words es w))) = tasks (run words es w)"
    using stale_timer_no_effect [OF t ne, of now] by simp_all
next
  show "state (snd (run_task Clear_result_sleep5 now w))
     = (if phase (state w) = ''idle'' then (state w)\<lparr>last_result := None\<rparr> else state w)"
    "heap (snd (run_task Clear_result_sleep5 now w)) (teamA (state w)) = heap w (teamA (state w))"
    "heap (snd (run_task Clear_result_sleep5 now w)) (teamB (state w)) = heap w (teamB (state w))"
    by (simp_all add: Let_def)
qed

theorem stale_timers_inert_witness:
  "tasks stale_countdown_world ! 0 = Countdown_sleep3 1 \<and>
   Countdown_sleep3 1 \<in> {Countdown_sleep3 1, Countdown_sleep30 1, Bonus_sleep3 1, Bonus_sleep60 1,
                          Watchdog_sleep11 1} \<and>
   1 < round_id (state stale_countdown_world) \<and>
   phase (state (run example_words [Game_trigger 30, Game_trigger 40] stale_countdown_world))
     = ''countdown'' \<and>
   state (snd (run_task (Countdown_sleep3 1) 50
                 (run example_words [Game_trigger 30, Game_trigger 40] stale_countdown_world)))
     = state (run example_words [Game_trigger 30, Game_trigger 40] stale_countdown_world)"
proof -
  have a: "1 < round_id (state stale_countdown_world)"
    by (simp add: stale_countdown_world_facts)
  have b: "phase (state (run example_words [Game_trigger 30, Game_trigger 40]
                    stale_countdown_world)) = ''countdown''"
    by (simp add: on_trigger_def Let_def set_phase_def start_background_task_def
        stale_countdown_world_facts)
  show ?thesis
    using a b
      stale_timers_inert [of "Countdown_sleep3 1" 1 stale_countdown_world 50 example_words
        "[Game_trigger 30, Game_trigger 40]"]
    by (simp add: stale_countdown_world_facts)
qed

section \<open>Publishing\<close>

text \<open>
  Claim C9. A second call of \<open>emit_state\<close> with no mutation in between hands nothing to
  the transport (it returns the world as it is), whatever the first call did. A call with
  \<open>force\<close> always publishes the current snapshot. Without \<open>force\<close> the call publishes
  exactly when nothing was published before or the snapshot differs, under \<open>==\<close> on the
  whole structure, from the snapshot kept at the last publication. That snapshot is a copy
  by value: in every world the system reaches, after any call of \<open>emit_state\<close>, a later
  change of a team dictionary of the session (a name or a score) or of any other field of
  the session makes the next call publish.
\<close>

theorem emit_state_change_detection:
  "emit_state False (emit_state f w) = emit_state f w \<and>
   \<not> pushes False (emit_state f w) \<and>
   pushes True w \<and>
   emitted (emit_state True w) =
     emitted w @
       [Game_state (state w) (heap w (teamA (state w))) (heap w (teamB (state w))),
        Admin_secrets (fst (PAIRINGS ! nat (pair_index (state w) mod 2)))
                      (snd (PAIRINGS ! nat (pair_index (state w) mod 2)))] \<and>
   (pushes False w \<longleftrightarrow>
      last_emitted_state w = None \<or>
      \<not> snapshot_eq (heap w) (the (last_emitted_state w)) (state w)) \<and>
   ((a = teamA (state (run words es initial_world)) \<or>
     a = teamB (state (run words es initial_world))) \<and>
    t \<noteq> heap (emit_state f (run words es initial_world)) a \<longrightarrow>
      pushes False
        ((emit_state f (run words es initial_world))
           \<lparr>heap := (heap (emit_state f (run words es initial_world)))(a := t)\<rparr>)) \<and>
   (teamA s = teamA (state (run words es initial_world)) \<and>
    teamB s = teamB (state (run words es initial_world)) \<and>
    s \<noteq> state (run words es initial_world) \<longrightarrow>
      pushes False ((emit_state f (run words es initial_world))\<lparr>state := s\<rparr>))"
proof (intro conjI impI)
  show "emit_state False (emit_state f w) = emit_state f w" by (rule emit_state_idem)
  show "\<not> pushes False (emit_state f w)" by (simp add: pushes_iff emit_state_in_sync)
  show "pushes True w" by (simp add: pushes_iff skips_def)
  show "emitted (emit_state True w) =
     emitted w @
       [Game_state (state w) (heap w (teamA (state w))) (heap w (teamB (state w))),
        Admin_secrets (fst (PAIRINGS ! nat (pair_index (state w) mod 2)))
                      (snd (PAIRINGS ! nat (pair_index (state w) mod 2)))]"
    by (cases True w rule: emit_state_cases) (simp_all add: skips_def)
  show "pushes False w \<longleftrightarrow>
      last_emitted_state w = None \<or>
      \<not> snapshot_eq (heap w) (the (last_emitted_state w)) (state w)"
    by (simp add: pushes_iff skips_def)
next
  let ?w = "emit_state f (run words es initial_world)"
  assume h: "(a = teamA (state (run words es initial_world)) \<or>
     a = teamB (state (run words es initial_world))) \<and>
    t \<noteq> heap (emit_state f (run words es initial_world)) a"
  have sep: "separated ?w"
    using run_separated [OF initial_separated, of words es]
    by (simp add: separated_def)
  have sync: "skips False ?w" by (rule emit_state_in_sync)
  have a: "a = teamA (state ?w) \<or> a = teamB (state ?w)" using h by simp
  have t: "t \<noteq> heap ?w a" using h by blast
  show "pushes False (?w\<lparr>heap := (heap ?w)(a := t)\<rparr>)"
    by (rule team_change_detected [OF sep sync a t])
next
  let ?w = "emit_state f (run words es initial_world)"
  assume h: "teamA s = teamA (state (run words es initial_world)) \<and>
    teamB s = teamB (state (run words es initial_world)) \<and>
    s \<noteq> state (run words es initial_world)"
  have sync: "skips False ?w" by (rule emit_state_in_sync)
  have refs: "teamA s = teamA (state ?w)" "teamB s = teamB (state ?w)" using h by simp_all
  have s: "s \<noteq> state ?w" using h by simp
  show "pushes False (?w\<lparr>state := s\<rparr>)"
    by (rule field_change_detected [OF sync refs s])
qed

theorem emit_state_change_detection_witness:
  "0 = teamA (state (run example_words [Connect, Game_trigger 10] initial_world)) \<and>
   \<lparr>name = ''Team A'', score = 3\<rparr>
     \<noteq> heap (emit_state False (run example_words [Connect, Game_trigger 10] initial_world)) 0 \<and>
   pushes False
     ((emit_state False (run example_words [Connect, Game_trigger 10] initial_world))
        \<lparr>heap := (heap (emit_state False (run example_words [Connect, Game_trigger 10]
                                         initial_world)))
                 (0 := \<lparr>name = ''Team A'', score = 3\<rparr>)\<rparr>) \<and>
   \<not> pushes False (emit_state False (run example_words [Connect, Game_trigger 10] initial_world))"
proof -
  have a: "teamA (state (run example_words [Connect, Game_trigger 10] initial_world)) = 0"
    by (simp add: handler_defs)
  have b: "heap (emit_state False (run example_words [Connect, Game_trigger 10] initial_world)) 0
             = \<lparr>name = ''Team A'', score = 0\<rparr>"
    by (simp add: handler_defs)
  show ?thesis
    using a b
      emit_state_change_detection
        [of False "run example_words [Connect, Game_trigger 10] initial_world" 0 example_words
          "[Connect, Game_trigger 10]" "\<lparr>name = ''Team A'', score = 3\<rparr>"]
    by simp
qed

end
